theory Spec2Isabelle
  imports Complex_Main "HOL-Library.List_Lexorder" "HOL-Library.Char_ord"
    "HOL-Library.Product_Lexorder"
begin

section \<open>Preschool demand forecasting: the forecasting engine\<close>

text \<open>
  A shallow embedding of \<^verbatim>\<open>src/forecast.py\<close>, \<^verbatim>\<open>src/process_fertility.py\<close>,
  \<^verbatim>\<open>src/process_bto.py\<close> and the aggregation of \<^verbatim>\<open>src/process_existing_residents.py\<close>.

  Conventions of the model.
  \<^item> Python's unbounded \<^verbatim>\<open>int\<close> is \<^typ>\<open>int\<close>.
  \<^item> A Python or numpy \<^verbatim>\<open>float\<close> is an exact rational (\<^typ>\<open>rat\<close>): the model computes
    what the code computes when no binary rounding error occurs. Rounding the quotient
    \<open>m / d\<close> of two integers to an integer is not affected by this as long as
    \<open>\<bar>m\<bar> < 2^52\<close>: the quotient is then further from every half-integer than the
    double nearest to it is from the quotient, and a quotient that is a half-integer is a
    double.
  \<^item> A year label \<^verbatim>\<open>str(year)\<close> of a pandas index is the year itself: \<^verbatim>\<open>str\<close> is
    injective on integers, and the tables are assumed to carry canonical decimal labels.
  \<^item> An exception is a value \<open>Inl e\<close> of the result type \<open>py_error + 'a\<close>.
  \<^item> A pandas \<^verbatim>\<open>Series\<close> whose labels are unique is its list of labels together with
    a function from labels to values; a \<^verbatim>\<open>Series\<close> that may repeat a label is a list
    of label-value pairs. Where pandas orders labels (\<^verbatim>\<open>pivot_table\<close>) the model sorts
    them; where the order comes from a Python \<^verbatim>\<open>set\<close> the model takes the order of
    first occurrence, and all reads are by label.
\<close>

datatype py_error = KeyError | ValueError | IntCastingNaNError

subsection \<open>Configuration (\<^verbatim>\<open>Config\<close>)\<close>

record config =
  num_forecast_years :: int
  preschool_capacity :: int
  current_year :: int
  min_preschool_age :: int
  max_preschool_age :: int

subsection \<open>Built-ins: \<^verbatim>\<open>round\<close>, \<^verbatim>\<open>max\<close>, \<^verbatim>\<open>range\<close>, \<^verbatim>\<open>astype(int)\<close>\<close>

text \<open>Python's \<^verbatim>\<open>round(x)\<close> and numpy's \<^verbatim>\<open>round\<close> both round a half to the even
  neighbour.\<close>

definition round_half_even :: "rat \<Rightarrow> int" where
  "round_half_even x =
     (let f = \<lfloor>x\<rfloor>; d = x - of_int f
      in if d < 1 / 2 then f
         else if 1 / 2 < d then f + 1
         else if even f then f else f + 1)"

text \<open>\<^verbatim>\<open>max(xs)\<close> raises \<^verbatim>\<open>ValueError\<close> on an empty list.\<close>

fun py_max :: "int list \<Rightarrow> py_error + int" where
  "py_max [] = Inl ValueError"
| "py_max (x # xs) = Inr (fold max xs x)"

text \<open>\<^verbatim>\<open>list(range(a, b))\<close>: the integers from \<open>a\<close> up to and excluding \<open>b\<close>.\<close>

definition py_range :: "int \<Rightarrow> int \<Rightarrow> int list" where
  "py_range a b = [a..b - 1]"

text \<open>\<^verbatim>\<open>astype(int)\<close> on a finite float drops the fractional part (towards zero).\<close>

definition astype_int :: "rat \<Rightarrow> int" where
  "astype_int x = (if 0 \<le> x then \<lfloor>x\<rfloor> else \<lceil>x\<rceil>)"

subsection \<open>Birth-year windows (\<^verbatim>\<open>FertilityProcessor\<close>)\<close>

definition birth_years_for_single_forecast_year :: "config \<Rightarrow> int \<Rightarrow> int list" where
  "birth_years_for_single_forecast_year c forecast_year =
     (let start_birth_year = forecast_year - round_half_even (of_int (max_preschool_age c) / 12);
          end_birth_year = forecast_year - round_half_even (of_int (min_preschool_age c) / 12)
      in py_range start_birth_year (end_birth_year + 1))"

text \<open>The loop of \<^verbatim>\<open>birth_years_for_multiple_forecast_years\<close>; the accumulator
  \<^verbatim>\<open>birth_years_all\<close> starts as \<^verbatim>\<open>None\<close>.\<close>

fun birth_years_loop :: "config \<Rightarrow> int list option \<Rightarrow> int list \<Rightarrow> py_error + int list option" where
  "birth_years_loop c birth_years_all [] = Inr birth_years_all"
| "birth_years_loop c None (forecast_year # rest) =
     birth_years_loop c (Some (birth_years_for_single_forecast_year c forecast_year)) rest"
| "birth_years_loop c (Some acc) (forecast_year # rest) =
     (case py_max (birth_years_for_single_forecast_year c forecast_year) of
        Inl e \<Rightarrow> Inl e
      | Inr m \<Rightarrow> birth_years_loop c (Some (acc @ [m])) rest)"

definition birth_years_for_multiple_forecast_years ::
    "config \<Rightarrow> int list \<Rightarrow> py_error + int list option" where
  "birth_years_for_multiple_forecast_years c forecast_years =
     birth_years_loop c None forecast_years"

subsection \<open>The orchestrator's forecast years (\<^verbatim>\<open>Forecaster.__init__\<close>)\<close>

definition forecast_years :: "config \<Rightarrow> int list" where
  "forecast_years c =
     py_range (current_year c + 1) (current_year c + 1 + num_forecast_years c)"

text \<open>Forecast years that go up by one from each to the next.\<close>

fun consecutive :: "int list \<Rightarrow> bool" where
  "consecutive [] = True"
| "consecutive [y] = True"
| "consecutive (y # z # ys) = (z = y + 1 \<and> consecutive (z # ys))"

definition default_config :: config where
  "default_config =
     \<lparr>num_forecast_years = 5, preschool_capacity = 100, current_year = 2026,
      min_preschool_age = 18, max_preschool_age = 72\<rparr>"

subsection \<open>Tables\<close>

record 'a series =
  s_index :: "string list"
  s_val :: "string \<Rightarrow> 'a"

text \<open>The fertility table: one column per year, each a series of rates per 1000 women
  over the age-bin labels.\<close>

type_synonym fertility_table = "(int \<times> (string \<times> rat) list) list"



text \<open>A year-by-subzone matrix of integers with unique row and column labels;
  \<open>fr_cell\<close> is read only at labels of the frame.\<close>

record frame =
  fr_index :: "int list"
  fr_columns :: "string list"
  fr_cell :: "int \<Rightarrow> string \<Rightarrow> int"


subsection \<open>Fertility-table extrapolation (\<^verbatim>\<open>extrapolate_births\<close>)\<close>

text \<open>\<^verbatim>\<open>df[label] = column\<close>: replaces the column of that label, or appends a new one.\<close>

definition set_column :: "fertility_table \<Rightarrow> int \<Rightarrow> (string \<times> rat) list \<Rightarrow> fertility_table" where
  "set_column t year col =
     (if year \<in> set (map fst t)
      then map (\<lambda>(k, v). if k = year then (k, col) else (k, v)) t
      else t @ [(year, col)])"

fun extrapolate_loop ::
    "int list \<Rightarrow> int \<Rightarrow> int list \<Rightarrow> fertility_table \<Rightarrow> py_error + fertility_table" where
  "extrapolate_loop available_years latest_available_year [] t = Inr t"
| "extrapolate_loop available_years latest_available_year (year # rest) t =
     (if year \<notin> set available_years
      then (case map_of t latest_available_year of
              None \<Rightarrow> Inl KeyError
            | Some col \<Rightarrow>
                extrapolate_loop available_years latest_available_year rest
                  (set_column t year col))
      else extrapolate_loop available_years latest_available_year rest t)"

definition extrapolate_births :: "int list \<Rightarrow> fertility_table \<Rightarrow> py_error + fertility_table" where
  "extrapolate_births birth_years t =
     (let available_years = map fst t
      in case py_max available_years of
           Inl e \<Rightarrow> Inl e
         | Inr latest_available_year \<Rightarrow>
             (case py_max birth_years of
                Inl e \<Rightarrow> Inl e
              | Inr max_birth_year \<Rightarrow>
                  if latest_available_year < max_birth_year
                  then extrapolate_loop available_years latest_available_year
                         (py_range (latest_available_year + 1) (max_birth_year + 1)) t
                  else Inr t))"

subsection \<open>Existing residents (\<^verbatim>\<open>calculate_existing_preschoolers_for_year\<close>)\<close>







subsection \<open>New housing (\<^verbatim>\<open>calculate_bto_preschoolers_for_year\<close>)\<close>










subsection \<open>Combination (\<^verbatim>\<open>calculate_preschoolers_for_year\<close>)\<close>




subsection \<open>Preschools needed (\<^verbatim>\<open>Forecaster.run\<close>)\<close>

text \<open>The values of a float64 cell: a finite number, an infinity, or NaN.\<close>

datatype np_float = Finite rat | PosInf | NegInf | NaN

text \<open>Division of an integer cell by the integer capacity; numpy does not raise on a zero
  divisor.\<close>

definition np_true_divide :: "int \<Rightarrow> int \<Rightarrow> np_float" where
  "np_true_divide n d =
     (if d = 0 then (if 0 < n then PosInf else if n < 0 then NegInf else NaN)
      else Finite (of_int n / of_int d))"

fun np_round :: "np_float \<Rightarrow> np_float" where
  "np_round (Finite x) = Finite (of_int (round_half_even x))"
| "np_round v = v"

text \<open>\<^verbatim>\<open>astype(int)\<close> refuses a non-finite value.\<close>

fun np_astype_int :: "np_float \<Rightarrow> py_error + int" where
  "np_astype_int (Finite x) = Inr (astype_int x)"
| "np_astype_int v = Inl IntCastingNaNError"

definition needed_cell :: "int \<Rightarrow> int \<Rightarrow> py_error + int" where
  "needed_cell capacity n = np_astype_int (np_round (np_true_divide n capacity))"

definition preschools_needed :: "int \<Rightarrow> frame \<Rightarrow> py_error + frame" where
  "preschools_needed capacity forecasted_num_preschoolers =
     (if list_ex (\<lambda>year. list_ex (\<lambda>subzone.
            isl (needed_cell capacity (fr_cell forecasted_num_preschoolers year subzone)))
              (fr_columns forecasted_num_preschoolers))
           (fr_index forecasted_num_preschoolers)
      then Inl IntCastingNaNError
      else Inr (forecasted_num_preschoolers
             \<lparr>fr_cell := (\<lambda>year subzone.
                case needed_cell capacity (fr_cell forecasted_num_preschoolers year subzone) of
                  Inr v \<Rightarrow> v | Inl e \<Rightarrow> 0)\<rparr>))"


subsection \<open>Gap (\<^verbatim>\<open>calculate_preschool_gap\<close>)\<close>

text \<open>\<open>existing_preschools\<close> is the column \<^verbatim>\<open>num_preschools\<close> of the supply table, with
  unique subzone labels.\<close>

definition common_subzones :: "int series \<Rightarrow> frame \<Rightarrow> string list" where
  "common_subzones existing_preschools preschool_gap =
     filter (\<lambda>subzone. subzone \<in> set (fr_columns preschool_gap))
       (remdups (s_index existing_preschools))"

text \<open>The assignment \<^verbatim>\<open>preschool_gap.loc[year, subzone] = existing - preschool_gap.loc[year, subzone]\<close>.\<close>

definition set_gap_cell :: "int series \<Rightarrow> int \<Rightarrow> string \<Rightarrow> frame \<Rightarrow> frame" where
  "set_gap_cell existing_preschools year subzone preschool_gap =
     preschool_gap\<lparr>fr_cell := (fr_cell preschool_gap)
       (year := (fr_cell preschool_gap year)
          (subzone := s_val existing_preschools subzone - fr_cell preschool_gap year subzone))\<rparr>"

definition calculate_preschool_gap :: "int series \<Rightarrow> frame \<Rightarrow> frame" where
  "calculate_preschool_gap existing_preschools forecasted_preschools_needed =
     (let preschool_gap = forecasted_preschools_needed;
          common = common_subzones existing_preschools preschool_gap
      in fold (\<lambda>year gap. fold (set_gap_cell existing_preschools year) common gap)
              (fr_index preschool_gap) preschool_gap)"

subsection \<open>Cumulative housing units (\<^verbatim>\<open>BTOProcessor\<close>)\<close>







subsection \<open>Women by age bin (\<^verbatim>\<open>ExistingResidentsProcessor.aggregate_women_by_age_bin\<close>)\<close>



subsection \<open>Reading results, and example data\<close>





text \<open>A one-year forecast with counts 149, 150 and 250.\<close>

definition forecast_2027 :: frame where
  "forecast_2027 =
     \<lparr>fr_index = [2027], fr_columns = [''Bedok'', ''Tampines'', ''Yishun''],
      fr_cell = (\<lambda>year subzone.
        if subzone = ''Bedok'' then 149 else if subzone = ''Tampines'' then 150 else 250)\<rparr>"

text \<open>A forecast with a year and no subzone.\<close>

definition forecast_no_subzones :: frame where
  "forecast_no_subzones = \<lparr>fr_index = [2027], fr_columns = [], fr_cell = (\<lambda>year subzone. 0)\<rparr>"

text \<open>The specification's gap example: supply \<open>{A: 3}\<close>, needed \<open>{2030: {A: 5, B: 2}}\<close>.\<close>

definition supply_A :: "int series" where
  "supply_A = \<lparr>s_index = [''A''], s_val = (\<lambda>subzone. 3)\<rparr>"

definition needed_A_B :: frame where
  "needed_A_B =
     \<lparr>fr_index = [2030], fr_columns = [''A'', ''B''],
      fr_cell = (\<lambda>year subzone. if subzone = ''A'' then 5 else 2)\<rparr>"




section \<open>Properties\<close>

subsection \<open>Rounding and maxima\<close>

lemma round_half_even_mono:
  assumes "x \<le> y"
  shows "round_half_even x \<le> round_half_even y"
proof (cases "\<lfloor>x\<rfloor> = \<lfloor>y\<rfloor>")
  case True
  with assms have "x - of_int \<lfloor>x\<rfloor> \<le> y - of_int \<lfloor>y\<rfloor>" by simp
  with True show ?thesis
    by (auto simp: round_half_even_def Let_def)
next
  case False
  with assms have "\<lfloor>x\<rfloor> < \<lfloor>y\<rfloor>"
    using floor_mono [OF assms] by linarith
  moreover have "round_half_even x \<le> \<lfloor>x\<rfloor> + 1"
    by (simp add: round_half_even_def Let_def)
  moreover have "\<lfloor>y\<rfloor> \<le> round_half_even y"
    by (simp add: round_half_even_def Let_def)
  ultimately show ?thesis by linarith
qed

lemma fold_max_upto:
  "a \<le> b \<Longrightarrow> fold max [a + 1..b] a = (b::int)"
proof (induction "nat (b - a)" arbitrary: a)
  case 0
  then show ?case by simp
next
  case (Suc n)
  then have "a < b" by linarith
  then have "[a + 1..b] = (a + 1) # [a + 1 + 1..b]"
    by (simp add: upto_rec1)
  moreover have "fold max [a + 1 + 1..b] (a + 1) = b"
    using Suc by (intro Suc.hyps(1)) linarith+
  ultimately show ?case by simp
qed

lemma py_max_upto:
  "a \<le> b \<Longrightarrow> py_max [a..b] = Inr b"
  by (simp add: upto_rec1 [of a b] fold_max_upto)

subsection \<open>Birth-year windows\<close>

lemma consecutive_upto:
  "consecutive (y # rest) \<Longrightarrow> length rest = n \<Longrightarrow> rest = [y + 1..y + int n]"
proof (induction rest arbitrary: y n)
  case Nil
  then show ?case by simp
next
  case (Cons z zs)
  from Cons.prems have z: "z = y + 1" by simp
  from Cons.prems have c: "consecutive (z # zs)" by auto
  obtain m where m: "length zs = m" "n = Suc m" using Cons.prems by auto
  from Cons.IH [OF c m(1)] have "zs = [z + 1..z + int m]" .
  moreover have "[y + 1..y + int n] = (y + 1) # [y + 1 + 1..y + int n]"
    by (rule upto_rec1) (simp add: m)
  ultimately show ?case using z m by (simp add: algebra_simps)
qed

lemma map_diff_upto:
  "map (\<lambda>z. z - b) [p..q] = [p - b..q - (b::int)]"
proof (induction "nat (q - p + 1)" arbitrary: p)
  case 0
  then show ?case by simp
next
  case (Suc n)
  then have le: "p \<le> q" by linarith
  have "map (\<lambda>z. z - b) [p + 1..q] = [p + 1 - b..q - b]"
    using Suc by (intro Suc.hyps(1)) linarith
  then show ?case using le
    by (simp add: upto_rec1 [of p q] upto_rec1 [of "p - b" "q - b"] algebra_simps)
qed

lemma single_window_eq:
  "birth_years_for_single_forecast_year c y =
     [y - round_half_even (of_int (max_preschool_age c) / 12)..
      y - round_half_even (of_int (min_preschool_age c) / 12)]"
  by (simp add: birth_years_for_single_forecast_year_def py_range_def Let_def)

lemma round_ages_le:
  "min_preschool_age c \<le> max_preschool_age c \<Longrightarrow>
   round_half_even (of_int (min_preschool_age c) / 12) \<le> round_half_even (of_int (max_preschool_age c) / 12)"
  by (rule round_half_even_mono) (simp add: divide_right_mono)

lemma birth_years_loop_Some:
  assumes "round_half_even (of_int (min_preschool_age c) / 12) \<le> round_half_even (of_int (max_preschool_age c) / 12)"
  shows "birth_years_loop c (Some acc) ys =
     Inr (Some (acc @ map (\<lambda>z. z - round_half_even (of_int (min_preschool_age c) / 12)) ys))"
proof (induction ys arbitrary: acc)
  case Nil
  then show ?case by simp
next
  case (Cons y ys)
  have "py_max (birth_years_for_single_forecast_year c y) =
      Inr (y - round_half_even (of_int (min_preschool_age c) / 12))"
    unfolding single_window_eq using assms by (intro py_max_upto) linarith
  then show ?case using Cons.IH by simp
qed

lemma union_windows:
  "b \<le> a \<Longrightarrow> 0 \<le> n \<Longrightarrow> (\<Union>z\<in>{y..y + n}. {z - a..z - b}) = {y - a..y + n - (b::int)}"
  apply (auto)
  subgoal for x
    apply (cases "x \<le> y - b")
     apply (rule bexI [of _ y]) apply simp apply simp
    apply (rule bexI [of _ "x + b"]) apply simp apply simp
    done
  done

lemma single_window_Max:
  assumes "min_preschool_age c \<le> max_preschool_age c"
  shows "Max (set (birth_years_for_single_forecast_year c z)) =
     z - round_half_even (of_int (min_preschool_age c) / 12)"
proof -
  have "z - round_half_even (of_int (max_preschool_age c) / 12)
      \<le> z - round_half_even (of_int (min_preschool_age c) / 12)"
    using round_ages_le [OF assms] by linarith
  then show ?thesis
    unfolding single_window_eq by (simp add: Max_eq_iff)
qed

lemma multiple_years_incremental:
  assumes "min_preschool_age c \<le> max_preschool_age c"
  shows "birth_years_for_multiple_forecast_years c (y # rest) =
     Inr (Some (birth_years_for_single_forecast_year c y @
                map (\<lambda>z. z - round_half_even (of_int (min_preschool_age c) / 12)) rest))"
  by (simp add: birth_years_for_multiple_forecast_years_def
      birth_years_loop_Some [OF round_ages_le [OF assms]])

lemma incremental_is_union:
  assumes ages: "min_preschool_age c \<le> max_preschool_age c"
    and cons: "consecutive (y # rest)"
  shows "birth_years_for_single_forecast_year c y @
           map (\<lambda>z. z - round_half_even (of_int (min_preschool_age c) / 12)) rest =
         sorted_list_of_set (\<Union>z\<in>set (y # rest). set (birth_years_for_single_forecast_year c z))"
proof -
  define a where "a = round_half_even (of_int (max_preschool_age c) / 12)"
  define b where "b = round_half_even (of_int (min_preschool_age c) / 12)"
  define n where "n = int (length rest)"
  have ba: "b \<le> a" unfolding a_def b_def by (rule round_ages_le [OF ages])
  have n0: "0 \<le> n" by (simp add: n_def)
  have rest: "rest = [y + 1..y + n]"
    unfolding n_def by (rule consecutive_upto [OF cons refl])
  have all: "y # rest = [y..y + n]"
    using n0 by (subst rest) (simp add: upto_rec1 [of y "y + n"])
  have W: "\<And>z. birth_years_for_single_forecast_year c z = [z - a..z - b]"
    by (simp add: single_window_eq a_def b_def)
  have "[y - a..y - b] @ map (\<lambda>z. z - b) [y + 1..y + n] = [y - a..y - b] @ [y - b + 1..y + n - b]"
    by (simp add: map_diff_upto algebra_simps)
  also have "\<dots> = [y - a..y + n - b]"
    using ba n0 by (intro upto_split2 [symmetric]) linarith+
  finally have lhs: "[y - a..y - b] @ map (\<lambda>z. z - b) rest = [y - a..y + n - b]"
    using rest by simp
  have "(\<Union>z\<in>set (y # rest). set (birth_years_for_single_forecast_year c z))
      = (\<Union>z\<in>{y..y + n}. {z - a..z - b})"
    by (simp only: all W set_upto)
  also have "\<dots> = {y - a..y + n - b}"
    by (rule union_windows [OF ba n0])
  finally show ?thesis
    using lhs by (simp only: W sorted_lift_of_set_eq_upto flip: b_def)
qed

lemma consecutive_range:
  "consecutive [a..b]"
proof (induction "nat (b - a + 1)" arbitrary: a)
  case 0
  then show ?case by simp
next
  case (Suc n)
  then have le: "a \<le> b" by linarith
  show ?case
  proof (cases "a = b")
    case True
    then show ?thesis by simp
  next
    case False
    with le have lt: "a + 1 \<le> b" by linarith
    have "consecutive [a + 1..b]"
      using Suc by (intro Suc.hyps(1)) linarith
    then show ?thesis
      using le lt by (simp add: upto_rec1 [of a b] upto_rec1 [of "a + 1" b])
  qed
qed

text \<open>
  Claim C2. For a non-empty list of forecast years (and a minimum age not above the maximum
  age, as the configuration requires), \<^verbatim>\<open>birth_years_for_multiple_forecast_years\<close> returns
  the single-year window of the first forecast year followed by the maximum birth year of
  the window of every later forecast year, in order. When the forecast years go up by one,
  that list is the ascending union of all the single-year windows.
\<close>

theorem multi_year_window:
  assumes "ys \<noteq> []"
    and "min_preschool_age c \<le> max_preschool_age c"
  shows "birth_years_for_multiple_forecast_years c ys =
           Inr (Some (birth_years_for_single_forecast_year c (hd ys) @
                      map (\<lambda>z. Max (set (birth_years_for_single_forecast_year c z))) (tl ys)))
       \<and> (consecutive ys \<longrightarrow>
            birth_years_for_multiple_forecast_years c ys =
              Inr (Some (sorted_list_of_set
                (\<Union>z\<in>set ys. set (birth_years_for_single_forecast_year c z)))))"
proof -
  obtain y rest where ys: "ys = y # rest"
    using assms(1) by (cases ys) auto
  show ?thesis
    unfolding ys
    using multiple_years_incremental [OF assms(2), of y rest]
      incremental_is_union [OF assms(2), of y rest]
    by (simp add: single_window_Max [OF assms(2)])
qed

lemma round_half_even_default_ages:
  "round_half_even (3 / 2) = 2" "round_half_even 6 = 6"
  by code_simp+

lemma single_default:
  "birth_years_for_single_forecast_year default_config y = [y - 6..y - 2]"
  by (simp add: single_window_eq default_config_def round_half_even_default_ages)

theorem multi_year_window_witness:
  "[2027, 2028, 2029] \<noteq> ([]::int list)
   \<and> min_preschool_age default_config \<le> max_preschool_age default_config
   \<and> consecutive [2027, 2028, 2029]
   \<and> birth_years_for_multiple_forecast_years default_config [2027, 2028, 2029] =
       Inr (Some [2021, 2022, 2023, 2024, 2025, 2026, 2027])"
proof -
  have ages: "min_preschool_age default_config \<le> max_preschool_age default_config"
    by (simp add: default_config_def)
  have ne: "[2027, 2028, 2029] \<noteq> ([]::int list)" by simp
  show ?thesis
    using multi_year_window [OF ne ages] ages
    by (simp add: single_default Max_eq_iff)
qed

text \<open>
  Claim C10. With a positive number of forecast years the orchestrator's forecast years are
  the integers from \<open>current_year + 1\<close> to \<open>current_year + num_forecast_years\<close> in ascending
  order, each one more than the one before; so the incremental multi-year window over them
  is the ascending union of the single-year windows.
\<close>

theorem forecast_years_consecutive:
  assumes "0 < num_forecast_years c"
  shows "forecast_years c = [current_year c + 1..current_year c + num_forecast_years c]
       \<and> length (forecast_years c) = nat (num_forecast_years c)
       \<and> consecutive (forecast_years c)
       \<and> (min_preschool_age c \<le> max_preschool_age c \<longrightarrow>
            birth_years_for_multiple_forecast_years c (forecast_years c) =
              Inr (Some (sorted_list_of_set
                (\<Union>z\<in>set (forecast_years c). set (birth_years_for_single_forecast_year c z)))))"
proof -
  have eq: "forecast_years c = [current_year c + 1..current_year c + num_forecast_years c]"
    by (simp add: forecast_years_def py_range_def)
  have rec: "[current_year c + 1..current_year c + num_forecast_years c] =
      (current_year c + 1) # [current_year c + 1 + 1..current_year c + num_forecast_years c]"
    using assms by (intro upto_rec1) linarith
  have cons: "consecutive (forecast_years c)"
    unfolding eq by (rule consecutive_range)
  have "birth_years_for_multiple_forecast_years c (forecast_years c) =
          Inr (Some (sorted_list_of_set
            (\<Union>z\<in>set (forecast_years c). set (birth_years_for_single_forecast_year c z))))"
    if ages: "min_preschool_age c \<le> max_preschool_age c"
  proof -
    obtain y rest where yr: "forecast_years c = y # rest"
      using eq rec by simp
    show ?thesis
      using multiple_years_incremental [OF ages, of y rest]
        incremental_is_union [OF ages, of y rest] cons
      unfolding yr by simp
  qed
  then show ?thesis
    using eq cons assms by simp
qed

theorem forecast_years_consecutive_witness:
  "0 < num_forecast_years default_config
   \<and> forecast_years default_config = [2027, 2028, 2029, 2030, 2031]
   \<and> consecutive (forecast_years default_config)
   \<and> birth_years_for_multiple_forecast_years default_config (forecast_years default_config) =
       Inr (Some [2021, 2022, 2023, 2024, 2025, 2026, 2027, 2028, 2029])"
proof -
  have pos: "0 < num_forecast_years default_config"
    by (simp add: default_config_def)
  have fy: "forecast_years default_config = [2027, 2028, 2029, 2030, 2031]"
    using forecast_years_consecutive [OF pos] by (simp add: default_config_def)
  have "birth_years_for_multiple_forecast_years default_config [2027, 2028, 2029, 2030, 2031] =
       Inr (Some [2021, 2022, 2023, 2024, 2025, 2026, 2027, 2028, 2029])"
    by (simp add: birth_years_for_multiple_forecast_years_def single_default)
  then show ?thesis
    using forecast_years_consecutive [OF pos] pos fy by (simp add: default_config_def)
qed

subsection \<open>Extrapolation of the fertility table\<close>

lemma py_max_Max:
  "py_max xs = Inr (Max (set xs))" if "xs \<noteq> []"
proof (cases xs)
  case Nil
  then show ?thesis using that by simp
next
  case (Cons x rest)
  then show ?thesis using Max.set_eq_fold [of x rest] by simp
qed

lemma extrapolate_loop_appends:
  assumes "map_of t latest = Some col"
    and "set ys \<inter> set available = {}"
    and "set ys \<inter> set (map fst t) = {}"
    and "distinct ys"
  shows "extrapolate_loop available latest ys t = Inr (t @ map (\<lambda>y. (y, col)) ys)"
  using assms
proof (induction ys arbitrary: t)
  case Nil
  then show ?case by simp
next
  case (Cons y ys)
  have fresh: "y \<notin> set (map fst t)" and notav: "y \<notin> set available"
    using Cons.prems by auto
  have sc: "set_column t y col = t @ [(y, col)]"
    using fresh by (simp add: set_column_def)
  have look: "map_of (t @ [(y, col)]) latest = Some col"
    using Cons.prems(1) by (simp add: map_add_Some_iff)
  have "extrapolate_loop available latest ys (t @ [(y, col)]) =
      Inr ((t @ [(y, col)]) @ map (\<lambda>y. (y, col)) ys)"
    using Cons.prems by (intro Cons.IH look) auto
  then show ?case
    using notav Cons.prems(1) sc by simp
qed

lemma extrapolate_births_result:
  assumes "t \<noteq> []" and "birth_years \<noteq> []"
  shows "extrapolate_births birth_years t =
     Inr (if Max (set (map fst t)) < Max (set birth_years)
          then t @ map (\<lambda>y. (y, the (map_of t (Max (set (map fst t))))))
                     [Max (set (map fst t)) + 1..Max (set birth_years)]
          else t)"
proof -
  define latest where "latest = Max (fst ` set t)"
  define maxb where "maxb = Max (set birth_years)"
  have av: "py_max (map fst t) = Inr latest"
    using py_max_Max [of "map fst t"] assms(1) by (simp add: latest_def)
  have mb: "py_max birth_years = Inr maxb"
    unfolding maxb_def using assms(2) by (intro py_max_Max)
  have "latest \<in> fst ` set t"
    unfolding latest_def using assms(1) by (intro Max_in) simp_all
  then obtain col where col: "map_of t latest = Some col"
    by (metis map_of_eq_None_iff not_Some_eq)
  have above: "\<And>y. y \<in> set (map fst t) \<Longrightarrow> y \<le> latest"
    unfolding latest_def by (intro Max_ge) simp_all
  have "extrapolate_loop (map fst t) latest [latest + 1..maxb] t =
      Inr (t @ map (\<lambda>y. (y, col)) [latest + 1..maxb])"
    using above by (intro extrapolate_loop_appends col) (fastforce)+
  then show ?thesis
    using av mb col
    by (simp add: extrapolate_births_def py_range_def flip: latest_def maxb_def)
qed

text \<open>
  Claim C8. For a table with at least one year column and a non-empty list of target birth
  years, \<^verbatim>\<open>extrapolate_births\<close> returns a table, and a second call with the same targets on
  that table returns it unchanged. The first call keeps every column of the input as it is
  and only appends columns for years the input does not have.
\<close>

theorem extrapolate_births_idempotent:
  assumes "t \<noteq> []" and "birth_years \<noteq> []"
  shows "\<exists>t' filled.
           extrapolate_births birth_years t = Inr t'
         \<and> extrapolate_births birth_years t' = Inr t'
         \<and> t' = t @ filled
         \<and> set (map fst filled) \<inter> set (map fst t) = {}"
proof -
  define latest where "latest = Max (fst ` set t)"
  define maxb where "maxb = Max (set birth_years)"
  define col where "col = the (map_of t latest)"
  define filled where
    "filled = (if latest < maxb then map (\<lambda>y. (y, col)) [latest + 1..maxb] else [])"
  have first: "extrapolate_births birth_years t = Inr (t @ filled)"
    using extrapolate_births_result [OF assms]
    by (simp add: filled_def latest_def maxb_def col_def)
  have above: "\<And>y. y \<in> set (map fst t) \<Longrightarrow> y \<le> latest"
    unfolding latest_def by (intro Max_ge) simp_all
  have keys: "set (map fst filled) = (if latest < maxb then {latest + 1..maxb} else {})"
    by (auto simp: filled_def image_iff)
  have disj: "set (map fst filled) \<inter> set (map fst t) = {}"
  proof -
    have False if "y \<in> set (map fst filled)" "y \<in> set (map fst t)" for y
    proof -
      from that(1) have "latest + 1 \<le> y"
        unfolding keys by (auto split: if_splits)
      moreover have "y \<le> latest" by (rule above [OF that(2)])
      ultimately show False by simp
    qed
    then show ?thesis by blast
  qed
  have ne: "t @ filled \<noteq> []" using assms(1) by simp
  have "\<not> Max (set (map fst (t @ filled))) < maxb"
  proof (cases "latest < maxb")
    case True
    then have "maxb \<in> set (map fst (t @ filled))"
      using keys by auto
    then have "maxb \<le> Max (set (map fst (t @ filled)))"
      by (intro Max_ge) simp_all
    then show ?thesis by simp
  next
    case False
    then have "filled = []" by (simp add: filled_def)
    then show ?thesis using False by (simp add: latest_def)
  qed
  then have second: "extrapolate_births birth_years (t @ filled) = Inr (t @ filled)"
    using extrapolate_births_result [OF ne assms(2)] by (simp add: maxb_def)
  show ?thesis
    using first second disj by blast
qed


theorem extrapolate_births_idempotent_witness:
  "[(2022, [(''20 - 24 Years'', 30)]), (2023, [(''20 - 24 Years'', 28)])] \<noteq> ([] :: fertility_table)
   \<and> [2024, 2025] \<noteq> ([] :: int list)
   \<and> extrapolate_births [2024, 2025]
        [(2022, [(''20 - 24 Years'', 30)]), (2023, [(''20 - 24 Years'', 28)])] =
      Inr [(2022, [(''20 - 24 Years'', 30)]), (2023, [(''20 - 24 Years'', 28)]),
           (2024, [(''20 - 24 Years'', 28)]), (2025, [(''20 - 24 Years'', 28)])]
   \<and> extrapolate_births [2024, 2025]
        [(2022, [(''20 - 24 Years'', 30)]), (2023, [(''20 - 24 Years'', 28)]),
         (2024, [(''20 - 24 Years'', 28)]), (2025, [(''20 - 24 Years'', 28)])] =
      Inr [(2022, [(''20 - 24 Years'', 30)]), (2023, [(''20 - 24 Years'', 28)]),
           (2024, [(''20 - 24 Years'', 28)]), (2025, [(''20 - 24 Years'', 28)])]"
proof -
  let ?t = "[(2022, [(''20 - 24 Years'', 30)]), (2023, [(''20 - 24 Years'', 28)])] :: fertility_table"
  have ne: "?t \<noteq> []" by simp
  have nb: "[2024, 2025] \<noteq> ([] :: int list)" by simp
  have first: "extrapolate_births [2024, 2025] ?t =
      Inr (?t @ [(2024, [(''20 - 24 Years'', 28)]), (2025, [(''20 - 24 Years'', 28)])])"
    by (simp add: extrapolate_births_def py_range_def set_column_def)
  from extrapolate_births_idempotent [OF ne nb] obtain t' where
    "extrapolate_births [2024, 2025] ?t = Inr t'" "extrapolate_births [2024, 2025] t' = Inr t'"
    by blast
  with first show ?thesis by simp
qed

subsection \<open>Births to existing residents\<close>












subsection \<open>Births in new housing\<close>














subsection \<open>Combining the two calculations\<close>









subsection \<open>Preschools needed\<close>




lemma needed_cell_zero:
  "needed_cell 0 n = Inl IntCastingNaNError"
  by (simp add: needed_cell_def np_true_divide_def)



text \<open>
  Claim C9 (as amended). With capacity zero and a forecast matrix that has at least one cell,
  the preschools-needed conversion fails with the integer cast's error on non-finite values;
  no needed matrix and hence no gap matrix is produced.
\<close>

theorem preschools_needed_zero_capacity:
  assumes "fr_index fr \<noteq> []" and "fr_columns fr \<noteq> []"
  shows "preschools_needed 0 fr = Inl IntCastingNaNError"
  using assms by (simp add: preschools_needed_def needed_cell_zero list_ex_iff)




theorem preschools_needed_zero_capacity_witness:
  "fr_index forecast_2027 \<noteq> [] \<and> fr_columns forecast_2027 \<noteq> []
   \<and> preschools_needed 0 forecast_2027 = Inl IntCastingNaNError"
proof -
  have i: "fr_index forecast_2027 \<noteq> []" and c: "fr_columns forecast_2027 \<noteq> []"
    by (simp_all add: forecast_2027_def)
  show ?thesis
    using preschools_needed_zero_capacity [OF i c] i c by simp
qed

text \<open>
  Claim C9 as stated fails: with capacity zero a forecast without cells is converted without
  any error, and on a forecast with cells the error is the one of the integer cast, raised
  at the conversion itself; no configuration is checked.
\<close>

theorem preschools_needed_zero_capacity_counterexample:
  "isl (preschools_needed 0 forecast_no_subzones) = False
   \<and> preschools_needed 0 forecast_2027 = Inl IntCastingNaNError"
  by (simp add: preschools_needed_def forecast_no_subzones_def forecast_2027_def needed_cell_zero)

subsection \<open>The gap\<close>

lemma set_gap_cell_simps:
  "fr_index (set_gap_cell ex year subzone g) = fr_index g"
  "fr_columns (set_gap_cell ex year subzone g) = fr_columns g"
  "fr_cell (set_gap_cell ex year subzone g) y s =
     (if y = year \<and> s = subzone then s_val ex s - fr_cell g y s else fr_cell g y s)"
  by (simp_all add: set_gap_cell_def)

lemma gap_inner:
  assumes "distinct common"
  shows "fr_index (fold (set_gap_cell ex year) common g) = fr_index g
       \<and> fr_columns (fold (set_gap_cell ex year) common g) = fr_columns g
       \<and> fr_cell (fold (set_gap_cell ex year) common g) y s =
           (if y = year \<and> s \<in> set common then s_val ex s - fr_cell g y s else fr_cell g y s)"
  using assms
  by (induction common arbitrary: g) (auto simp: set_gap_cell_simps)

lemma gap_outer:
  assumes "distinct years" and "distinct common"
  shows "fr_index (fold (\<lambda>year gap. fold (set_gap_cell ex year) common gap) years g) = fr_index g
       \<and> fr_columns (fold (\<lambda>year gap. fold (set_gap_cell ex year) common gap) years g) = fr_columns g
       \<and> fr_cell (fold (\<lambda>year gap. fold (set_gap_cell ex year) common gap) years g) y s =
           (if y \<in> set years \<and> s \<in> set common then s_val ex s - fr_cell g y s else fr_cell g y s)"
  using assms(1)
  by (induction years arbitrary: g) (auto simp: gap_inner [OF assms(2)])

lemma calculate_preschool_gap_cells:
  assumes "distinct (fr_index fr)"
  shows "fr_index (calculate_preschool_gap ex fr) = fr_index fr"
    and "fr_columns (calculate_preschool_gap ex fr) = fr_columns fr"
    and "fr_cell (calculate_preschool_gap ex fr) y s =
     (if y \<in> set (fr_index fr) \<and> s \<in> set (s_index ex) \<and> s \<in> set (fr_columns fr)
      then s_val ex s - fr_cell fr y s else fr_cell fr y s)"
proof -
  have d: "distinct (common_subzones ex fr)"
    by (simp add: common_subzones_def)
  have s: "s \<in> set (common_subzones ex fr) \<longleftrightarrow> s \<in> set (s_index ex) \<and> s \<in> set (fr_columns fr)"
    by (auto simp: common_subzones_def)
  note g = gap_outer [OF assms d, of ex fr y s]
  show "fr_index (calculate_preschool_gap ex fr) = fr_index fr"
    using g by (simp add: calculate_preschool_gap_def Let_def)
  show "fr_columns (calculate_preschool_gap ex fr) = fr_columns fr"
    using g by (simp add: calculate_preschool_gap_def Let_def)
  show "fr_cell (calculate_preschool_gap ex fr) y s =
     (if y \<in> set (fr_index fr) \<and> s \<in> set (s_index ex) \<and> s \<in> set (fr_columns fr)
      then s_val ex s - fr_cell fr y s else fr_cell fr y s)"
    using g s by (simp add: calculate_preschool_gap_def Let_def)
qed

text \<open>
  Claim C1, evaluated on the specification's own example: the result keeps column \<open>B\<close>,
  which has no supply entry, and its cell still holds the needed count 2; only the cell of
  the common subzone \<open>A\<close> is the gap \<open>3 - 5\<close>.
\<close>

theorem gap_keeps_unmatched_subzone:
  "fr_index (calculate_preschool_gap supply_A needed_A_B) = [2030]
   \<and> fr_columns (calculate_preschool_gap supply_A needed_A_B) = [''A'', ''B'']
   \<and> fr_cell (calculate_preschool_gap supply_A needed_A_B) 2030 ''A'' = - 2
   \<and> fr_cell (calculate_preschool_gap supply_A needed_A_B) 2030 ''B'' = 2"
  by (simp add: calculate_preschool_gap_def common_subzones_def set_gap_cell_def supply_A_def
      needed_A_B_def)

subsection \<open>Subzone names that differ by surrounding whitespace\<close>












end
